theory Spec2Isabelle
  imports
    Main
    "HOL-Library.Char_ord"
    "HOL-Library.List_Lexorder"
    "HOL-Library.Product_Lexorder"
    "HOL-Library.Multiset"
begin

section \<open>The apartment application page of gordon-360-ui\<close>

text \<open>
  The development embeds the handlers of
  \<^verbatim>\<open>src/views/ApartmentApp/components/StudentApplication/index.js\<close>.
  The React component keeps its data in state variables; a handler is a function from the
  state of the page (the record \<open>page_state\<close> below) to the next state. A handler runs
  to completion before the next one starts, so the value a handler reads from its closure
  (\<^verbatim>\<open>applicationDetails\<close>) and the value React passes to its functional updater
  (\<^verbatim>\<open>prevApplicationDetails\<close>) are the same record here.
\<close>

subsection \<open>JavaScript values\<close>

text \<open>
  A JavaScript number as far as the page uses it for a rank: an integer, or \<^verbatim>\<open>NaN\<close>.
\<close>

datatype jsnum = JNum int | JNaN

text \<open>
  The value a form control hands over as the rank: \<^verbatim>\<open>undefined\<close>,
  \<^verbatim>\<open>null\<close>, a number or a string.
\<close>

datatype jsval = JUndefined | JNull | JNumber jsnum | JString string

text \<open>
  An operand of \<^verbatim>\<open>??\<close>: \<^verbatim>\<open>null\<close> and \<^verbatim>\<open>undefined\<close> are
  \<open>Nullish\<close>, every other value is \<open>Present\<close>. \<^verbatim>\<open>a ?? b\<close> is \<open>b\<close> exactly
  when \<open>a\<close> is nullish.
\<close>

datatype 'a nullable = Nullish | Present 'a

fun nullish_coalesce :: "'a nullable \<Rightarrow> 'a \<Rightarrow> 'a" where
  "nullish_coalesce Nullish b = b"
| "nullish_coalesce (Present a) b = a"

text \<open>The relational operators on numbers: every comparison with \<^verbatim>\<open>NaN\<close> is false.\<close>

fun js_gt :: "jsnum \<Rightarrow> jsnum \<Rightarrow> bool" where
  "js_gt (JNum a) (JNum b) = (a > b)"
| "js_gt _ _ = False"

text \<open>
  \<^verbatim>\<open>Number(v)\<close>: \<^verbatim>\<open>NaN\<close> for \<^verbatim>\<open>undefined\<close>, 0 for \<^verbatim>\<open>null\<close>, a number
  itself. A string is read by the language's \<^verbatim>\<open>StringToNumber\<close>, which gives the
  value of a numeric literal and \<^verbatim>\<open>NaN\<close> for a string that is none; it is the
  parameter \<open>stringToNumber\<close>. Whatever the argument, the result is a number, never
  \<^verbatim>\<open>null\<close> or \<^verbatim>\<open>undefined\<close>.
\<close>

fun Number :: "(string \<Rightarrow> jsnum) \<Rightarrow> jsval \<Rightarrow> jsnum" where
  "Number stringToNumber JUndefined = JNaN"
| "Number stringToNumber JNull = JNum 0"
| "Number stringToNumber (JNumber x) = x"
| "Number stringToNumber (JString s) = stringToNumber s"

subsection \<open>The data of the page\<close>

text \<open>
  \<^verbatim>\<open>StudentProfileInfo\<close>, with the fields the page reads. \<open>fullName\<close> and
  \<open>Gender\<close> may be absent (\<open>Nullish\<close>, \<open>None\<close>: the field is
  \<^verbatim>\<open>null\<close> or \<^verbatim>\<open>undefined\<close>).
\<close>

record student_profile =
  AD_Username :: string
  fullName :: "string nullable"
  FirstName :: string
  LastName :: string
  PersonType :: string
  Gender :: "string option"

text \<open>\<^verbatim>\<open>ApartmentApplicant\<close>. \<open>Profile\<close> is \<open>None\<close> when it is \<^verbatim>\<open>null\<close>.\<close>

record apartment_applicant =
  ApplicantApplicationID :: "int option"
  Profile :: "student_profile option"
  Username :: string
  OffCampusProgram :: string

text \<open>\<^verbatim>\<open>ApartmentChoice\<close>.\<close>

record apartment_choice =
  ChoiceApplicationID :: "int option"
  HallRank :: jsnum
  HallName :: string

text \<open>
  \<^verbatim>\<open>ApplicationDetails\<close>. \<open>ApplicationGender\<close> is the field \<^verbatim>\<open>Gender\<close> of the
  aggregate, which \<^verbatim>\<open>initializeNewApplication\<close> sets and \<^verbatim>\<open>isApplicantValid\<close> reads;
  \<^verbatim>\<open>BLANK_APPLICATION_DETAILS\<close> does not have it. The page reads a missing
  \<^verbatim>\<open>ApartmentChoices\<close> as the empty array (\<^verbatim>\<open>?? []\<close>), which is the empty list here.
\<close>

record application_details =
  ApplicationID :: "int option"
  DateSubmitted :: "string option"
  DateModified :: "string option"
  EditorProfile :: "student_profile option"
  ApplicationGender :: "string option"
  Applicants :: "apartment_applicant list"
  ApartmentChoices :: "apartment_choice list"

definition MAX_NUM_APPLICANTS :: nat where
  "MAX_NUM_APPLICANTS = 8"

definition BLANK_APPLICATION_DETAILS :: application_details where
  "BLANK_APPLICATION_DETAILS =
     \<lparr>ApplicationID = None, DateSubmitted = None, DateModified = None, EditorProfile = None,
      ApplicationGender = None, Applicants = [], ApartmentChoices = []\<rparr>"

text \<open>The busy flags: \<^verbatim>\<open>false | true | 'success' | 'error'\<close>.\<close>

datatype busy_flag = FlagFalse | FlagTrue | FlagSuccess | FlagError

datatype severity = NoSeverity | Info | Warning | Error

record snackbar_state =
  message :: string
  severity :: severity
  isOpen :: bool

text \<open>What the remote services can fail with, and what a handler can throw.\<close>

datatype service_error = AuthError | NotFoundError | OtherError

datatype exn = TypeError

text \<open>
  A call to a remote service. The page's state keeps the calls made so far
  (\<open>calls\<close>, newest last): it is how "no call is issued" is stated, and a service answers
  as a function of the calls made before, since the server's data changes with them.
\<close>

datatype service_call =
    GetProfileInfo string
  | GetCurrentApplicationID "string option"
  | GetApartmentApplication int
  | SaveApartmentApplication application_details

record services =
  user_getProfileInfo :: "service_call list \<Rightarrow> string \<Rightarrow> service_error + student_profile option"
  housing_getCurrentApplicationID :: "service_call list \<Rightarrow> string option \<Rightarrow> service_error + int"
  housing_getApartmentApplication :: "service_call list \<Rightarrow> int \<Rightarrow> service_error + application_details"
  housing_saveApartmentApplication :: "service_call list \<Rightarrow> application_details \<Rightarrow> service_error + int option"

text \<open>
  The state variables of the component that the handlers below read or write, the
  \<^verbatim>\<open>userProfile\<close> prop, the log of service calls, and the number of timers started so far
  (a timer's handle is its number).
\<close>

record page_state =
  userProfile :: student_profile
  applicationDetails :: application_details
  unsavedChanges :: bool
  canEditApplication :: bool
  saving :: busy_flag
  snackbar :: snackbar_state
  newEditorProfile :: "student_profile option"
  saveButtonAlertTimeout :: "nat option"
  timersStarted :: nat
  calls :: "service_call list"

definition createSnackbar :: "string \<Rightarrow> severity \<Rightarrow> page_state \<Rightarrow> page_state" where
  "createSnackbar m s st = st\<lparr>snackbar := \<lparr>message = m, severity = s, isOpen = True\<rparr>\<rparr>"

subsection \<open>Hall preferences\<close>

text \<open>
  \<^verbatim>\<open>sortBy(choices, ['HallRank', 'HallName'])\<close> of lodash: a stable sort, ascending in the
  rank, then in the name. Strings compare by their characters' codes. lodash puts
  \<^verbatim>\<open>NaN\<close> after every number; its comparison does not order two ranks that are both
  \<^verbatim>\<open>NaN\<close>, and such rows are ordered by their names here.
\<close>

fun rankKey :: "jsnum \<Rightarrow> bool \<times> int" where
  "rankKey (JNum n) = (False, n)"
| "rankKey JNaN = (True, 0)"

definition choiceKey :: "apartment_choice \<Rightarrow> (bool \<times> int) \<times> string" where
  "choiceKey c = (rankKey (HallRank c), HallName c)"

definition sortByRankName :: "apartment_choice list \<Rightarrow> apartment_choice list" where
  "sortByRankName cs = sort_key choiceKey cs"

text \<open>\<^verbatim>\<open>xs.filter((_x, index) => index !== i)\<close>.\<close>

fun filterIndexFrom :: "int \<Rightarrow> int \<Rightarrow> 'a list \<Rightarrow> 'a list" where
  "filterIndexFrom k i [] = []"
| "filterIndexFrom k i (x # xs) =
     (if k \<noteq> i then x # filterIndexFrom (k + 1) i xs else filterIndexFrom (k + 1) i xs)"

definition filterIndex :: "int \<Rightarrow> 'a list \<Rightarrow> 'a list" where
  "filterIndex i xs = filterIndexFrom 0 i xs"

text \<open>The callback of \<^verbatim>\<open>map\<close> in \<^verbatim>\<open>handleHallRemove\<close>; \<open>n\<close> is the length of the filtered array.\<close>

definition clampRank :: "nat \<Rightarrow> apartment_choice \<Rightarrow> apartment_choice" where
  "clampRank n c = (if js_gt (HallRank c) (JNum (int n)) then c\<lparr>HallRank := JNum (int n)\<rparr> else c)"

definition removeChoice :: "int \<Rightarrow> apartment_choice list \<Rightarrow> apartment_choice list" where
  "removeChoice i cs = (let kept = filterIndex i cs in map (clampRank (length kept)) kept)"

text \<open>\<^verbatim>\<open>handleHallRemove(indexToRemove)\<close>; the index is \<open>None\<close> when it is \<^verbatim>\<open>null\<close>.\<close>

definition handleHallRemove :: "int option \<Rightarrow> page_state \<Rightarrow> page_state" where
  "handleHallRemove indexToRemove st =
     (case indexToRemove of
        None \<Rightarrow> st
      | Some i \<Rightarrow>
          if i \<noteq> - 1 then
            st\<lparr>applicationDetails :=
                 (applicationDetails st)\<lparr>ApartmentChoices :=
                   removeChoice i (ApartmentChoices (applicationDetails st))\<rparr>,
               unsavedChanges := True\<rparr>
          else st)"

text \<open>\<^verbatim>\<open>handleHallAdd()\<close>.\<close>

definition handleHallAdd :: "page_state \<Rightarrow> page_state" where
  "handleHallAdd st =
     (let newPlaceholderHall =
            \<lparr>ChoiceApplicationID = ApplicationID (applicationDetails st),
             HallRank = JNum (int (length (ApartmentChoices (applicationDetails st))) + 1),
             HallName = ''''\<rparr>
      in st\<lparr>applicationDetails :=
              (applicationDetails st)\<lparr>ApartmentChoices :=
                ApartmentChoices (applicationDetails st) @ [newPlaceholderHall]\<rparr>\<rparr>)"

text \<open>
  \<^verbatim>\<open>handleHallInputChange(hallRankValue, hallNameValue, index)\<close>. Reading
  \<^verbatim>\<open>ApartmentChoices[index].HallName\<close> at an index past the end throws a
  \<^verbatim>\<open>TypeError\<close> before any state is set. \<open>hallNameTaken\<close> is the condition of the first
  \<^verbatim>\<open>if\<close>; a nullish name equals no stored name.
\<close>

definition hallNameTaken :: "apartment_choice list \<Rightarrow> nat \<Rightarrow> string nullable \<Rightarrow> bool" where
  "hallNameTaken cs i hallNameValue =
     (case hallNameValue of
        Nullish \<Rightarrow> False
      | Present n \<Rightarrow> n \<noteq> HallName (cs ! i) \<and> list_ex (\<lambda>hallInfo. HallName hallInfo = n) cs)"

definition newApartmentChoice ::
  "(string \<Rightarrow> jsnum) \<Rightarrow> application_details \<Rightarrow> jsval \<Rightarrow> string nullable \<Rightarrow> nat \<Rightarrow>
     apartment_choice" where
  "newApartmentChoice stringToNumber ad hallRankValue hallNameValue i =
     \<lparr>ChoiceApplicationID = ApplicationID ad,
      HallRank = nullish_coalesce (Present (Number stringToNumber hallRankValue))
                   (HallRank (ApartmentChoices ad ! i)),
      HallName = nullish_coalesce hallNameValue (HallName (ApartmentChoices ad ! i))\<rparr>"

definition msg_hall_in_list :: "string nullable \<Rightarrow> string" where
  "msg_hall_in_list n = (case n of Nullish \<Rightarrow> ''null'' | Present s \<Rightarrow> s) @ '' is already in the list.''"

definition msg_hall_edit_failed :: string where
  "msg_hall_edit_failed = ''Something went wrong while trying to edit this hall. Please try again.''"

definition handleHallInputChange ::
  "(string \<Rightarrow> jsnum) \<Rightarrow> jsval \<Rightarrow> string nullable \<Rightarrow> int option \<Rightarrow> page_state \<Rightarrow>
     exn + page_state" where
  "handleHallInputChange stringToNumber hallRankValue hallNameValue index st =
     (let ad = applicationDetails st; cs = ApartmentChoices ad in
      case index of
        None \<Rightarrow> Inr (createSnackbar msg_hall_edit_failed Error st)
      | Some k \<Rightarrow>
          if k \<ge> 0 then
            (let i = nat k in
             if i \<ge> length cs then Inl TypeError
             else if hallNameTaken cs i hallNameValue then
               Inr ((createSnackbar (msg_hall_in_list hallNameValue) Info st)
                      \<lparr>applicationDetails := ad\<lparr>ApartmentChoices := sortByRankName cs\<rparr>,
                       unsavedChanges := True\<rparr>)
             else
               Inr (st\<lparr>applicationDetails :=
                          ad\<lparr>ApartmentChoices :=
                               sortByRankName
                                 (cs[i := newApartmentChoice stringToNumber ad hallRankValue hallNameValue i])\<rparr>,
                       unsavedChanges := True\<rparr>))
          else Inr (createSnackbar msg_hall_edit_failed Error st))"

subsection \<open>Applicants\<close>

definition msg_add_failed :: string where
  "msg_add_failed = ''Something went wrong while trying to add this person. Please try again.''"

definition msg_too_many :: string where
  "msg_too_many = ''You cannot have more than 8 applicants''"

definition msg_not_student :: "string \<Rightarrow> string" where
  "msg_not_student n =
     ''Could not add '' @ n @ '' as an applicant because they are not a student.''"

definition msg_not_same_gender :: "string \<Rightarrow> string" where
  "msg_not_same_gender n =
     ''Could not add '' @ n @
     '' as an applicant because they are not the same gender as the other applicants.''"

definition msg_other_application :: "string \<Rightarrow> string" where
  "msg_other_application n = n @ '' is already on another application for this semester.''"

definition msg_unauthorized_debug :: string where
  "msg_unauthorized_debug =
     ''Received a 401 (Unauthorized) response, which should not be possible in this case. Please try refreshing the page, or contact CTS for support.''"

definition msg_already_listed :: "string nullable \<Rightarrow> string" where
  "msg_already_listed n =
     (case n of Nullish \<Rightarrow> ''undefined'' | Present s \<Rightarrow> s) @ '' is already in the list.''"

text \<open>\<^verbatim>\<open>s.includes(t)\<close>: \<open>t\<close> occurs in \<open>s\<close> as a run of consecutive characters.\<close>

fun startsWith :: "string \<Rightarrow> string \<Rightarrow> bool" where
  "startsWith s [] = True"
| "startsWith [] (c # t) = False"
| "startsWith (d # s) (c # t) = (d = c \<and> startsWith s t)"

fun includesStr :: "string \<Rightarrow> string \<Rightarrow> bool" where
  "includesStr [] t = (t = [])"
| "includesStr (d # s) t = (startsWith (d # s) t \<or> includesStr s t)"

text \<open>
  \<^verbatim>\<open>isApplicantValid(applicant)\<close>. Besides its verdict and the state of the page it
  returns the applicant: line 191 assigns \<^verbatim>\<open>applicant.Profile.fullName\<close> when that
  field is nullish, and the caller goes on with the object so changed. When the service
  fails with an error that is neither \<^verbatim>\<open>NotFoundError\<close> nor \<^verbatim>\<open>AuthError\<close> the
  \<^verbatim>\<open>catch\<close> block throws it again, and the \<^verbatim>\<open>return\<close> of the \<^verbatim>\<open>finally\<close> block
  replaces the throw: the function returns \<^verbatim>\<open>false\<close>.
\<close>

definition filledFullName :: "student_profile \<Rightarrow> string" where
  "filledFullName p = nullish_coalesce (fullName p) (FirstName p @ ''  '' @ LastName p)"

definition isApplicantValid ::
  "services \<Rightarrow> apartment_applicant \<Rightarrow> page_state \<Rightarrow> bool \<times> apartment_applicant \<times> page_state" where
  "isApplicantValid env applicant st =
     (case Profile applicant of
        None \<Rightarrow> (False, applicant, createSnackbar msg_add_failed Error st)
      | Some p \<Rightarrow>
          if length (Applicants (applicationDetails st)) \<ge> MAX_NUM_APPLICANTS then
            (False, applicant, createSnackbar msg_too_many Warning st)
          else
            (let p' = p\<lparr>fullName := Present (filledFullName p)\<rparr>;
                 applicant' = applicant\<lparr>Profile := Some p'\<rparr>
             in
             if \<not> includesStr (PersonType p') ''stu'' then
               (False, applicant', createSnackbar (msg_not_student (filledFullName p)) Warning st)
             else if Gender p' \<noteq> ApplicationGender (applicationDetails st) then
               (False, applicant', createSnackbar (msg_not_same_gender (filledFullName p)) Warning st)
             else
               (let st1 = st\<lparr>calls := calls st @ [GetCurrentApplicationID (Some (AD_Username p'))]\<rparr>
                in
                case housing_getCurrentApplicationID env (calls st) (Some (AD_Username p')) of
                  Inr existingAppID \<Rightarrow>
                    if existingAppID > 0 \<and> Some existingAppID \<noteq> ApplicationID (applicationDetails st)
                    then (False, applicant',
                          createSnackbar (msg_other_application (filledFullName p)) Warning st1)
                    else (True, applicant', st1)
                | Inl NotFoundError \<Rightarrow> (True, applicant', st1)
                | Inl AuthError \<Rightarrow>
                    (False, applicant', createSnackbar msg_unauthorized_debug Error st1)
                | Inl OtherError \<Rightarrow> (False, applicant', st1))))"

text \<open>
  \<^verbatim>\<open>Applicants.some((applicant) => applicant.Profile.AD_Username === username)\<close>: it stops
  at the first match, and reading \<^verbatim>\<open>AD_Username\<close> of a \<^verbatim>\<open>null\<close> profile throws.
\<close>

fun someUsername :: "apartment_applicant list \<Rightarrow> string \<Rightarrow> exn + bool" where
  "someUsername [] u = Inr False"
| "someUsername (a # as) u =
     (case Profile a of
        None \<Rightarrow> Inl TypeError
      | Some p \<Rightarrow> if AD_Username p = u then Inr True else someUsername as u)"

text \<open>
  \<^verbatim>\<open>addApplicant(newApplicantUsername)\<close>. Everything thrown inside is caught and reported
  by the snackbar.
\<close>

definition addApplicant :: "services \<Rightarrow> string \<Rightarrow> page_state \<Rightarrow> page_state" where
  "addApplicant env newApplicantUsername st =
     (let st1 = st\<lparr>calls := calls st @ [GetProfileInfo newApplicantUsername]\<rparr> in
      case user_getProfileInfo env (calls st) newApplicantUsername of
        Inl e \<Rightarrow> createSnackbar msg_add_failed Error st1
      | Inr newApplicantProfile \<Rightarrow>
          (let newApplicantObject =
                 \<lparr>ApplicantApplicationID = ApplicationID (applicationDetails st1),
                  Profile = newApplicantProfile,
                  Username = newApplicantUsername,
                  OffCampusProgram = ''''\<rparr>
           in
           case someUsername (Applicants (applicationDetails st1)) newApplicantUsername of
             Inl TypeError \<Rightarrow> createSnackbar msg_add_failed Error st1
           | Inr True \<Rightarrow>
               (case newApplicantProfile of
                  None \<Rightarrow> createSnackbar msg_add_failed Error st1
                | Some p \<Rightarrow> createSnackbar (msg_already_listed (fullName p)) Info st1)
           | Inr False \<Rightarrow>
               (case isApplicantValid env newApplicantObject st1 of
                  (validApplicant, checkedApplicant, st2) \<Rightarrow>
                    if validApplicant then
                      st2\<lparr>applicationDetails :=
                            (applicationDetails st2)\<lparr>Applicants :=
                              Applicants (applicationDetails st2) @ [checkedApplicant]\<rparr>,
                          unsavedChanges := True\<rparr>
                    else st2)))"

text \<open>\<^verbatim>\<open>handleSearchSubmit(searchSelection)\<close>: the empty string is falsy.\<close>

definition handleSearchSubmit :: "services \<Rightarrow> string \<Rightarrow> page_state \<Rightarrow> page_state" where
  "handleSearchSubmit env searchSelection st =
     (if searchSelection \<noteq> [] then addApplicant env searchSelection st else st)"





subsection \<open>Loading and saving\<close>

text \<open>\<^verbatim>\<open>initializeNewApplication()\<close> of \<^verbatim>\<open>loadApplication\<close>.\<close>

definition initializeNewApplication :: "page_state \<Rightarrow> page_state" where
  "initializeNewApplication st =
     (let initialApplicants =
            [\<lparr>ApplicantApplicationID = None, Profile = Some (userProfile st),
              Username = AD_Username (userProfile st), OffCampusProgram = ''''\<rparr>]
      in st\<lparr>applicationDetails :=
              BLANK_APPLICATION_DETAILS
                \<lparr>EditorProfile := Some (userProfile st),
                 ApplicationGender := Gender (userProfile st),
                 Applicants := initialApplicants\<rparr>,
            canEditApplication := True,
            unsavedChanges := True\<rparr>)"

text \<open>
  The \<^verbatim>\<open>catch\<close> block of \<^verbatim>\<open>loadApplication\<close>. An error of another kind is thrown
  again, and the \<^verbatim>\<open>return\<close> in \<^verbatim>\<open>finally\<close> replaces the throw.
\<close>

definition loadApplicationFailed :: "service_error \<Rightarrow> page_state \<Rightarrow> page_state" where
  "loadApplicationFailed e st =
     (case e of
        NotFoundError \<Rightarrow> initializeNewApplication st
      | AuthError \<Rightarrow> createSnackbar msg_unauthorized_debug Error st
      | OtherError \<Rightarrow> st)"

text \<open>
  \<^verbatim>\<open>loadApplication()\<close>, with its result. An application without an editor makes
  \<^verbatim>\<open>newApplicationDetails.EditorProfile.AD_Username\<close> throw a \<^verbatim>\<open>TypeError\<close> after the
  details were stored; it is caught and thrown again like any other error.
\<close>

definition loadApplication :: "services \<Rightarrow> page_state \<Rightarrow> page_state \<times> bool" where
  "loadApplication env st =
     (let st1 = st\<lparr>calls := calls st @ [GetCurrentApplicationID None]\<rparr>;
          (st4, result) =
            (case housing_getCurrentApplicationID env (calls st) None of
               Inl e \<Rightarrow> (loadApplicationFailed e st1, False)
             | Inr newApplicationID \<Rightarrow>
                 if newApplicationID > 0 then
                   (let st2 = st1\<lparr>calls := calls st1 @ [GetApartmentApplication newApplicationID]\<rparr>
                    in
                    case housing_getApartmentApplication env (calls st1) newApplicationID of
                      Inl e \<Rightarrow> (loadApplicationFailed e st2, False)
                    | Inr newApplicationDetails \<Rightarrow>
                        (let st3 = st2\<lparr>applicationDetails := newApplicationDetails\<rparr> in
                         case EditorProfile newApplicationDetails of
                           None \<Rightarrow> (st3, False)
                         | Some editor \<Rightarrow>
                             (st3\<lparr>canEditApplication :=
                                    (AD_Username (userProfile st) = AD_Username editor),
                                  unsavedChanges := False\<rparr>, True)))
                 else (loadApplicationFailed NotFoundError st1, False))
      in (st4\<lparr>newEditorProfile := None\<rparr>, result))"

definition msg_no_applicants :: string where
  "msg_no_applicants =
     ''Error: There are no applicants on this application. This should not be possible. Please refresh the page and try again.''"

definition msg_save_unauthorized :: string where
  "msg_save_unauthorized = ''You are not authorized to save changes to this application.''"

definition msg_not_in_database :: string where
  "msg_not_in_database = ''Error: This application was not found in the database.''"

definition msg_save_failed :: string where
  "msg_save_failed = ''Something went wrong while trying to save the application.''"

text \<open>
  \<^verbatim>\<open>applicants.map((applicant) => isApplicantValid(applicant))\<close> under
  \<^verbatim>\<open>Promise.all\<close>: the verdicts, the applicants as the checks left them, and the state.
  The checks are taken one after the other, in the order of the array.
\<close>

fun validateApplicants ::
  "services \<Rightarrow> apartment_applicant list \<Rightarrow> page_state \<Rightarrow>
     bool list \<times> apartment_applicant list \<times> page_state" where
  "validateApplicants env [] st = ([], [], st)"
| "validateApplicants env (a # as) st =
     (case isApplicantValid env a st of
        (v, a', st1) \<Rightarrow>
          (case validateApplicants env as st1 of
             (vs, as', st2) \<Rightarrow> (v # vs, a' # as', st2)))"

text \<open>The \<^verbatim>\<open>catch\<close> block of \<^verbatim>\<open>saveApartmentApplication\<close>.\<close>

definition saveFailed :: "service_error \<Rightarrow> page_state \<Rightarrow> page_state" where
  "saveFailed e st =
     (createSnackbar
        (case e of
           AuthError \<Rightarrow> msg_save_unauthorized
         | NotFoundError \<Rightarrow> msg_not_in_database
         | OtherError \<Rightarrow> msg_save_failed) Error st)\<lparr>saving := FlagError\<rparr>"

text \<open>
  The \<^verbatim>\<open>finally\<close> block of \<^verbatim>\<open>saveApartmentApplication\<close>: \<open>closureTimeout\<close> is the value
  of \<^verbatim>\<open>saveButtonAlertTimeout\<close> that the handler's closure holds, the one from before the
  call. \<open>saveButtonAlertExpired\<close> is the timer's callback, run six seconds later.
\<close>

definition startSaveButtonAlert :: "nat option \<Rightarrow> page_state \<Rightarrow> page_state" where
  "startSaveButtonAlert closureTimeout st =
     (if closureTimeout = None then
        st\<lparr>saveButtonAlertTimeout := Some (timersStarted st),
           timersStarted := timersStarted st + 1\<rparr>
      else st)"

definition saveButtonAlertExpired :: "page_state \<Rightarrow> page_state" where
  "saveButtonAlertExpired st = st\<lparr>saveButtonAlertTimeout := None, saving := FlagFalse\<rparr>"

text \<open>
  \<^verbatim>\<open>saveApartmentApplication(applicationDetails)\<close>, with its result (\<open>None\<close> is
  \<^verbatim>\<open>null\<close>). The argument's \<^verbatim>\<open>Applicants\<close> array holds the objects that the checks
  assign \<^verbatim>\<open>fullName\<close> in; at every call site it is the array of the state, so the state
  sees the assignments when the two arrays are equal. A result of 0 is falsy.
\<close>

definition saveApartmentApplication ::
  "services \<Rightarrow> application_details \<Rightarrow> page_state \<Rightarrow> page_state \<times> int option" where
  "saveApartmentApplication env details st =
     (let st0 = st\<lparr>saving := FlagTrue, saveButtonAlertTimeout := None\<rparr>;
          (st5, result) =
            (if length (Applicants details) < 1 then
               ((createSnackbar msg_no_applicants Error st0)\<lparr>saving := FlagError\<rparr>, None)
             else
               (case validateApplicants env (Applicants details) st0 of
                  (validApplicants, checkedApplicants, st1) \<Rightarrow>
                    (let details' = details\<lparr>Applicants := checkedApplicants\<rparr>;
                         st2 = (if Applicants (applicationDetails st1) = Applicants details
                                then st1\<lparr>applicationDetails :=
                                          (applicationDetails st1)\<lparr>Applicants := checkedApplicants\<rparr>\<rparr>
                                else st1)
                     in
                     if list_all (\<lambda>v. v) validApplicants then
                       (let st3 = st2\<lparr>calls := calls st2 @ [SaveApartmentApplication details']\<rparr>
                        in
                        case housing_saveApartmentApplication env (calls st2) details' of
                          Inl e \<Rightarrow> (saveFailed e st3, None)
                        | Inr None \<Rightarrow> (saveFailed OtherError st3, None)
                        | Inr (Some newID) \<Rightarrow>
                            if newID \<noteq> 0 then
                              (let st4 = st3\<lparr>applicationDetails :=
                                               (applicationDetails st3)\<lparr>ApplicationID := Some newID\<rparr>,
                                             saving := FlagSuccess,
                                             unsavedChanges := False\<rparr>
                               in (fst (loadApplication env st4), Some newID))
                            else (saveFailed OtherError st3, Some newID))
                     else (st2, None))))
      in (startSaveButtonAlert (saveButtonAlertTimeout st) st5, result))"

text \<open>\<^verbatim>\<open>handleSaveButtonClick()\<close>.\<close>

definition handleSaveButtonClick :: "services \<Rightarrow> page_state \<Rightarrow> page_state \<times> int option" where
  "handleSaveButtonClick env st = saveApartmentApplication env (applicationDetails st) st"

subsection \<open>Predicates of the specification and sample data\<close>

abbreviation choices :: "page_state \<Rightarrow> apartment_choice list" where
  "choices st \<equiv> ApartmentChoices (applicationDetails st)"

abbreviation roster :: "page_state \<Rightarrow> apartment_applicant list" where
  "roster st \<equiv> Applicants (applicationDetails st)"

text \<open>No two choices share a non-empty \<^verbatim>\<open>HallName\<close>.\<close>

definition namesUnique :: "apartment_choice list \<Rightarrow> bool" where
  "namesUnique cs = distinct (filter (\<lambda>n. n \<noteq> []) (map HallName cs))"

text \<open>
  The ranks are exactly the contiguous integers 1..len: each rank occurs once, and the
  ranks that occur are the numbers from 1 to the length.
\<close>

definition ranksContiguous :: "apartment_choice list \<Rightarrow> bool" where
  "ranksContiguous cs =
     (distinct (map HallRank cs) \<and>
      set (map HallRank cs) = set (map (\<lambda>k. JNum (int k)) [1..<Suc (length cs)]))"

text \<open>Every rank is an integer from 1 to the length; a rank may occur more than once.\<close>

fun rankInRange :: "nat \<Rightarrow> jsnum \<Rightarrow> bool" where
  "rankInRange n (JNum r) = (1 \<le> r \<and> r \<le> int n)"
| "rankInRange n JNaN = False"

definition ranksInRange :: "apartment_choice list \<Rightarrow> bool" where
  "ranksInRange cs = list_all (\<lambda>c. rankInRange (length cs) (HallRank c)) cs"

text \<open>Sample data: a hall choice, a student, and the page around a roster and a hall list.\<close>

definition hall :: "int \<Rightarrow> string \<Rightarrow> apartment_choice" where
  "hall r n = \<lparr>ChoiceApplicationID = None, HallRank = JNum r, HallName = n\<rparr>"

definition student :: "string \<Rightarrow> string \<Rightarrow> string \<Rightarrow> string \<Rightarrow> student_profile" where
  "student u given family g =
     \<lparr>AD_Username = u, fullName = Nullish, FirstName = given, LastName = family,
      PersonType = ''stu'', Gender = Some g\<rparr>"

definition applicantOf :: "student_profile \<Rightarrow> apartment_applicant" where
  "applicantOf p =
     \<lparr>ApplicantApplicationID = None, Profile = Some p, Username = AD_Username p,
      OffCampusProgram = ''''\<rparr>"

definition alice :: student_profile where
  "alice = student ''alice.smith'' ''Alice'' ''Smith'' ''F''"

definition pageWith :: "apartment_applicant list \<Rightarrow> apartment_choice list \<Rightarrow> page_state" where
  "pageWith as cs =
     \<lparr>userProfile = alice,
      applicationDetails =
        \<lparr>ApplicationID = None, DateSubmitted = None, DateModified = None,
         EditorProfile = Some alice, ApplicationGender = Some ''F'',
         Applicants = as, ApartmentChoices = cs\<rparr>,
      unsavedChanges = False,
      canEditApplication = True,
      saving = FlagFalse,
      snackbar = \<lparr>message = '''', severity = NoSeverity, isOpen = False\<rparr>,
      newEditorProfile = None,
      saveButtonAlertTimeout = None,
      timersStarted = 0,
      calls = []\<rparr>"

definition bob :: student_profile where
  "bob = student ''bob.jones'' ''Bob'' ''Jones'' ''M''"

definition carol :: student_profile where
  "carol = student ''carol.reed'' ''Carol'' ''Reed'' ''F''"

text \<open>
  Sample services: the identity service knows Bob and Carol; the housing service has no
  application for anybody and accepts a save with the identifier 1.
\<close>

definition sampleServices :: services where
  "sampleServices =
     \<lparr>user_getProfileInfo =
        (\<lambda>_ u. if u = ''bob.jones'' then Inr (Some bob)
                else if u = ''carol.reed'' then Inr (Some carol)
                else Inl NotFoundError),
      housing_getCurrentApplicationID = (\<lambda>_ _. Inl NotFoundError),
      housing_getApartmentApplication = (\<lambda>_ _. Inl NotFoundError),
      housing_saveApartmentApplication = (\<lambda>_ _. Inr (Some 1))\<rparr>"




text \<open>
  A reading of strings for the examples: a decimal integer with an optional sign, blanks
  around it dropped, is its value, the empty string is 0, and a word such as
  \<^verbatim>\<open>'first'\<close> is \<^verbatim>\<open>NaN\<close>, as in the language.
\<close>

definition isBlank :: "char \<Rightarrow> bool" where
  "isBlank c = (c = CHR '' '' \<or> c = CHR 0x09 \<or> c = CHR 0x0A \<or> c = CHR 0x0D)"

definition trim :: "string \<Rightarrow> string" where
  "trim s = rev (dropWhile isBlank (rev (dropWhile isBlank s)))"

definition isDigit :: "char \<Rightarrow> bool" where
  "isDigit c = (c \<in> set ''0123456789'')"

definition digitValue :: "char \<Rightarrow> int" where
  "digitValue c = int (of_char c) - 48"

definition decimalValue :: "string \<Rightarrow> int" where
  "decimalValue ds = foldl (\<lambda>acc c. 10 * acc + digitValue c) 0 ds"

definition unsignedDecimal :: "string \<Rightarrow> jsnum" where
  "unsignedDecimal ds = (if ds \<noteq> [] \<and> list_all isDigit ds then JNum (decimalValue ds) else JNaN)"

definition negate :: "jsnum \<Rightarrow> jsnum" where
  "negate x = (case x of JNum n \<Rightarrow> JNum (- n) | JNaN \<Rightarrow> JNaN)"

definition decimalInteger :: "string \<Rightarrow> jsnum" where
  "decimalInteger s =
     (case trim s of
        [] \<Rightarrow> JNum 0
      | c # cs \<Rightarrow>
          if c = CHR ''-'' then negate (unsignedDecimal cs)
          else if c = CHR ''+'' then unsignedDecimal cs
          else unsignedDecimal (c # cs))"

text \<open>
  Every applicant of the roster has a profile, and its \<^verbatim>\<open>Gender\<close> is the one the
  application holds.
\<close>

definition rosterSharesGender :: "page_state \<Rightarrow> bool" where
  "rosterSharesGender st =
     list_all (\<lambda>a. case Profile a of
                      None \<Rightarrow> False
                    | Some p \<Rightarrow> Gender p = ApplicationGender (applicationDetails st))
       (Applicants (applicationDetails st))"

section \<open>Hall preferences: removing, adding and editing a choice\<close>

lemma filterIndexFrom_miss:
  "i < k \<or> k + int (length xs) \<le> i \<Longrightarrow> filterIndexFrom k i xs = xs"
  by (induction xs arbitrary: k) auto

lemma filterIndexFrom_hit:
  "k \<le> i \<Longrightarrow> nat (i - k) < length xs \<Longrightarrow>
     filterIndexFrom k i xs = take (nat (i - k)) xs @ drop (Suc (nat (i - k))) xs"
proof (induction xs arbitrary: k)
  case Nil
  then show ?case by simp
next
  case (Cons x xs)
  show ?case
  proof (cases "k = i")
    case True
    then show ?thesis by (simp add: filterIndexFrom_miss)
  next
    case False
    with Cons.prems have lt: "k + 1 \<le> i" and len: "nat (i - (k + 1)) < length xs"
      by auto
    have "nat (i - k) = Suc (nat (i - (k + 1)))" using lt by simp
    then show ?thesis using Cons.IH[OF lt len] False by simp
  qed
qed

lemma filterIndex_valid:
  "i < length xs \<Longrightarrow> filterIndex (int i) xs = take i xs @ drop (Suc i) xs"
  unfolding filterIndex_def using filterIndexFrom_hit[of 0 "int i" xs] by simp

lemma filterIndex_cases:
  "filterIndex i xs = xs \<or> (\<exists>n<length xs. filterIndex i xs = take n xs @ drop (Suc n) xs)"
proof (cases "0 \<le> i \<and> nat i < length xs")
  case True
  then show ?thesis using filterIndex_valid[of "nat i" xs] by auto
next
  case False
  then have "i < 0 \<or> 0 + int (length xs) \<le> i" by auto
  then show ?thesis unfolding filterIndex_def using filterIndexFrom_miss by blast
qed

lemma set_filterIndex: "set (filterIndex i xs) \<subseteq> set xs"
  using filterIndex_cases[of i xs] by (auto dest: in_set_takeD in_set_dropD)

lemma clampRank_name [simp]: "HallName (clampRank n c) = HallName c"
  by (simp add: clampRank_def)



lemma clampRank_inRange:
  "rankInRange m (HallRank c) \<Longrightarrow> 0 < n \<Longrightarrow> rankInRange n (HallRank (clampRank n c))"
  by (cases "HallRank c") (auto simp: clampRank_def)


lemma namesUnique_take_drop:
  "namesUnique cs \<Longrightarrow> namesUnique (take n cs @ drop (Suc n) cs)"
proof (cases "n < length cs")
  case True
  assume u: "namesUnique cs"
  have "cs = take n cs @ cs ! n # drop (Suc n) cs" using True by (rule id_take_nth_drop)
  then have "namesUnique (take n cs @ cs ! n # drop (Suc n) cs)" using u by simp
  then show ?thesis by (auto simp: namesUnique_def split: if_splits)
next
  case False
  assume "namesUnique cs"
  then show ?thesis using False by simp
qed

lemma namesUnique_filterIndex: "namesUnique cs \<Longrightarrow> namesUnique (filterIndex i cs)"
  using filterIndex_cases[of i cs] namesUnique_take_drop by auto

lemma namesUnique_map_clamp: "namesUnique (map (clampRank n) cs) = namesUnique cs"
  by (simp add: namesUnique_def comp_def)

lemma namesUnique_removeChoice: "namesUnique cs \<Longrightarrow> namesUnique (removeChoice i cs)"
  by (simp add: removeChoice_def Let_def namesUnique_map_clamp namesUnique_filterIndex)

lemma ranksInRange_removeChoice:
  assumes "ranksInRange cs"
  shows "ranksInRange (removeChoice i cs)"
proof -
  let ?kept = "filterIndex i cs"
  have all: "\<forall>c\<in>set ?kept. rankInRange (length cs) (HallRank c)"
    using assms set_filterIndex[of i cs] by (auto simp: ranksInRange_def list_all_iff)
  have "rankInRange (length ?kept) (HallRank (clampRank (length ?kept) c))" if "c \<in> set ?kept" for c
  proof -
    from that have "0 < length ?kept" by (cases ?kept) auto
    with all that show ?thesis using clampRank_inRange by blast
  qed
  then show ?thesis by (simp add: ranksInRange_def removeChoice_def Let_def list_all_iff)
qed

lemma namesUnique_sort: "namesUnique (sortByRankName cs) = namesUnique cs"
proof -
  have "mset (filter (\<lambda>n. n \<noteq> []) (map HallName (sort_key choiceKey cs))) =
        mset (filter (\<lambda>n. n \<noteq> []) (map HallName cs))"
    by (simp add: mset_filter mset_map del: filter_sort)
  then show ?thesis
    unfolding namesUnique_def sortByRankName_def by (rule mset_eq_imp_distinct_iff)
qed

lemma ranksInRange_sort: "ranksInRange (sortByRankName cs) = ranksInRange cs"
  by (simp add: ranksInRange_def sortByRankName_def list_all_iff)

lemma namesUnique_update:
  assumes u: "namesUnique cs" and i: "i < length cs"
    and n: "HallName y = HallName (cs ! i) \<or> HallName y \<notin> HallName ` set cs"
  shows "namesUnique (cs[i := y])"
proof (cases "HallName y = HallName (cs ! i)")
  case True
  then have "map HallName (cs[i := y]) = map HallName cs"
    by (simp add: map_update list_update_same_conv i)
  then show ?thesis using u by (simp add: namesUnique_def)
next
  case False
  with n have fresh: "HallName y \<notin> HallName ` set cs" by simp
  have split: "cs = take i cs @ cs ! i # drop (Suc i) cs" using i by (rule id_take_nth_drop)
  have "namesUnique (take i cs @ cs ! i # drop (Suc i) cs)" using u split by simp
  moreover have "HallName y \<notin> HallName ` set (take i cs)" "HallName y \<notin> HallName ` set (drop (Suc i) cs)"
    using fresh by (auto dest: in_set_takeD in_set_dropD)
  ultimately have "namesUnique (take i cs @ y # drop (Suc i) cs)"
    by (auto simp: namesUnique_def split: if_splits)
  then show ?thesis using i by (simp add: upd_conv_take_nth_drop)
qed

lemma ranksInRange_update:
  "ranksInRange cs \<Longrightarrow> rankInRange (length cs) (HallRank y) \<Longrightarrow> ranksInRange (cs[i := y])"
  by (auto simp: ranksInRange_def list_all_iff dest: set_update_subset_insert[THEN subsetD])

lemma newApartmentChoice_name:
  "i < length (ApartmentChoices ad) \<Longrightarrow> \<not> hallNameTaken (ApartmentChoices ad) i nm \<Longrightarrow>
     HallName (newApartmentChoice toNum ad v nm i) = HallName (ApartmentChoices ad ! i) \<or>
     HallName (newApartmentChoice toNum ad v nm i) \<notin> HallName ` set (ApartmentChoices ad)"
  by (cases nm) (auto simp: newApartmentChoice_def hallNameTaken_def list_ex_iff)


lemma choices_handleHallRemove_any:
  "choices (handleHallRemove idx st) = choices st \<or>
   (\<exists>i. choices (handleHallRemove idx st) = removeChoice i (choices st))"
  by (cases idx) (auto simp: handleHallRemove_def)

lemma choices_handleHallAdd:
  "choices (handleHallAdd st) =
     choices st @ [\<lparr>ChoiceApplicationID = ApplicationID (applicationDetails st),
                   HallRank = JNum (int (length (choices st)) + 1), HallName = ''''\<rparr>]"
  by (simp add: handleHallAdd_def Let_def)


lemma handleHallInputChange_valid:
  assumes "i < length (choices st)"
  shows "handleHallInputChange toNum v nm (Some (int i)) st =
           Inr (if hallNameTaken (choices st) i nm
                then (createSnackbar (msg_hall_in_list nm) Info st)
                       \<lparr>applicationDetails :=
                          (applicationDetails st)\<lparr>ApartmentChoices := sortByRankName (choices st)\<rparr>,
                        unsavedChanges := True\<rparr>
                else st\<lparr>applicationDetails :=
                          (applicationDetails st)\<lparr>ApartmentChoices :=
                            sortByRankName
                              ((choices st)[i := newApartmentChoice toNum (applicationDetails st) v nm i])\<rparr>,
                        unsavedChanges := True\<rparr>)"
  using assms by (simp add: handleHallInputChange_def Let_def)

lemma choices_handleHallInputChange:
  assumes "handleHallInputChange toNum v nm idx st = Inr st'"
  shows "choices st' = choices st \<or>
         (\<exists>i<length (choices st).
            idx = Some (int i) \<and>
            (if hallNameTaken (choices st) i nm
             then choices st' = sortByRankName (choices st)
             else choices st' =
                    sortByRankName
                      ((choices st)[i := newApartmentChoice toNum (applicationDetails st) v nm i])))"
proof (cases idx)
  case None
  with assms have "st' = createSnackbar msg_hall_edit_failed Error st"
    by (simp add: handleHallInputChange_def)
  then show ?thesis by (simp add: createSnackbar_def)
next
  case (Some k)
  show ?thesis
  proof (cases "0 \<le> k")
    case neg: False
    with assms Some have "st' = createSnackbar msg_hall_edit_failed Error st"
      by (simp add: handleHallInputChange_def)
    then show ?thesis by (simp add: createSnackbar_def)
  next
    case nonneg: True
    show ?thesis
    proof (cases "nat k < length (choices st)")
      case False
      with assms Some nonneg have False
        by (simp add: handleHallInputChange_def Let_def)
      then show ?thesis ..
    next
      case True
      have k: "idx = Some (int (nat k))" using Some nonneg by simp
      note valid = handleHallInputChange_valid[OF True, of toNum v nm]
      have "if hallNameTaken (choices st) (nat k) nm
            then choices st' = sortByRankName (choices st)
            else choices st' =
                   sortByRankName
                     ((choices st)[nat k := newApartmentChoice toNum (applicationDetails st) v nm (nat k)])"
      proof (cases "hallNameTaken (choices st) (nat k) nm")
        case t: True
        with assms valid k have "st' = (createSnackbar (msg_hall_in_list nm) Info st)
                       \<lparr>applicationDetails :=
                          (applicationDetails st)\<lparr>ApartmentChoices := sortByRankName (choices st)\<rparr>,
                        unsavedChanges := True\<rparr>"
          by simp
        then show ?thesis using t by simp
      next
        case f: False
        with assms valid k have "st' = st\<lparr>applicationDetails :=
                          (applicationDetails st)\<lparr>ApartmentChoices :=
                            sortByRankName
                              ((choices st)[nat k := newApartmentChoice toNum (applicationDetails st) v nm (nat k)])\<rparr>,
                        unsavedChanges := True\<rparr>"
          by simp
        then show ?thesis using f by simp
      qed
      with True k show ?thesis by blast
    qed
  qed
qed



lemma namesUnique_handleHallAdd: "namesUnique (choices st) \<Longrightarrow> namesUnique (choices (handleHallAdd st))"
  by (simp add: choices_handleHallAdd namesUnique_def)

lemma ranksInRange_handleHallAdd: "ranksInRange (choices st) \<Longrightarrow> ranksInRange (choices (handleHallAdd st))"
proof -
  assume r: "ranksInRange (choices st)"
  have "rankInRange (Suc n) x" if "rankInRange n x" for n x
    using that by (cases x) auto
  then show ?thesis using r
    by (auto simp: choices_handleHallAdd ranksInRange_def list_all_iff)
qed

lemma namesUnique_handleHallRemove:
  "namesUnique (choices st) \<Longrightarrow> namesUnique (choices (handleHallRemove idx st))"
  using choices_handleHallRemove_any[of idx st] namesUnique_removeChoice by auto

lemma ranksInRange_handleHallRemove:
  "ranksInRange (choices st) \<Longrightarrow> ranksInRange (choices (handleHallRemove idx st))"
  using choices_handleHallRemove_any[of idx st] ranksInRange_removeChoice by auto

lemma namesUnique_handleHallInputChange:
  assumes u: "namesUnique (choices st)" and h: "handleHallInputChange toNum v nm idx st = Inr st'"
  shows "namesUnique (choices st')"
proof -
  from choices_handleHallInputChange[OF h] consider
      (same) "choices st' = choices st"
    | (edit) i where "i < length (choices st)"
        "if hallNameTaken (choices st) i nm
         then choices st' = sortByRankName (choices st)
         else choices st' =
                sortByRankName ((choices st)[i := newApartmentChoice toNum (applicationDetails st) v nm i])"
    by blast
  then show ?thesis
  proof cases
    case same
    then show ?thesis using u by simp
  next
    case edit
    show ?thesis
    proof (cases "hallNameTaken (choices st) i nm")
      case True
      with edit show ?thesis using u by (simp add: namesUnique_sort)
    next
      case False
      have "namesUnique ((choices st)[i := newApartmentChoice toNum (applicationDetails st) v nm i])"
        using u edit(1) newApartmentChoice_name[OF edit(1) False] by (rule namesUnique_update)
      with edit False show ?thesis by (simp add: namesUnique_sort)
    qed
  qed
qed

lemma ranksInRange_handleHallInputChange:
  assumes r: "ranksInRange (choices st)" and h: "handleHallInputChange toNum v nm idx st = Inr st'"
    and v: "rankInRange (length (choices st)) (Number toNum v)"
  shows "ranksInRange (choices st')"
proof -
  from choices_handleHallInputChange[OF h] consider
      (same) "choices st' = choices st"
    | (edit) i where "i < length (choices st)"
        "if hallNameTaken (choices st) i nm
         then choices st' = sortByRankName (choices st)
         else choices st' =
                sortByRankName ((choices st)[i := newApartmentChoice toNum (applicationDetails st) v nm i])"
    by blast
  then show ?thesis
  proof cases
    case same
    then show ?thesis using r by simp
  next
    case edit
    show ?thesis
    proof (cases "hallNameTaken (choices st) i nm")
      case True
      with edit show ?thesis using r by (simp add: ranksInRange_sort)
    next
      case False
      have "HallRank (newApartmentChoice toNum (applicationDetails st) v nm i) = Number toNum v"
        by (simp add: newApartmentChoice_def)
      then have "ranksInRange ((choices st)[i := newApartmentChoice toNum (applicationDetails st) v nm i])"
        using r v by (simp add: ranksInRange_update)
      with edit False show ?thesis by (simp add: ranksInRange_sort)
    qed
  qed
qed

lemma handleHallAdd_appends_placeholder:
  "choices (handleHallAdd st) =
     choices st @ [\<lparr>ChoiceApplicationID = ApplicationID (applicationDetails st),
                   HallRank = JNum (int (length (choices st)) + 1), HallName = ''''\<rparr>] \<and>
   roster (handleHallAdd st) = roster st \<and>
   unsavedChanges (handleHallAdd st) = unsavedChanges st"
  by (simp add: handleHallAdd_def Let_def)

lemma newApartmentChoice_rank: "HallRank (newApartmentChoice toNum ad v nm i) = Number toNum v"
  by (simp add: newApartmentChoice_def)

lemma hall_invariants_initial:
  "namesUnique (ApartmentChoices BLANK_APPLICATION_DETAILS) \<and>
   ranksInRange (ApartmentChoices BLANK_APPLICATION_DETAILS)"
  by (simp add: BLANK_APPLICATION_DETAILS_def namesUnique_def ranksInRange_def)

section \<open>Claims about the hall preferences\<close>



text \<open>
  Claim C1, as stated, fails: after \<^verbatim>\<open>handleHallRemove(0)\<close> on the ranks 1, 2, 3 the
  ranks are 2, 2. The handler only lowers the ranks above the new length; it does not
  number the choices again.
\<close>

theorem ranksContiguous_handleHallRemove_counterexample:
  "namesUnique [hall 1 ''North'', hall 2 ''South'', hall 3 ''East''] \<and>
   ranksContiguous [hall 1 ''North'', hall 2 ''South'', hall 3 ''East''] \<and>
   choices (handleHallRemove (Some 0)
      (pageWith [] [hall 1 ''North'', hall 2 ''South'', hall 3 ''East'']))
     = [hall 2 ''South'', hall 2 ''East''] \<and>
   \<not> ranksContiguous (choices (handleHallRemove (Some 0)
      (pageWith [] [hall 1 ''North'', hall 2 ''South'', hall 3 ''East''])))"
  by (simp add: pageWith_def hall_def handleHallRemove_def removeChoice_def filterIndex_def
        clampRank_def namesUnique_def ranksContiguous_def)

text \<open>
  Claim C1, amended. Every mutation of the hall list keeps these two properties: no two
  choices share a non-empty \<^verbatim>\<open>HallName\<close>, and every \<^verbatim>\<open>HallRank\<close> is an integer from
  1 to the length of the list. Adding and removing a choice keep both; editing a choice
  keeps the names unique, and keeps the ranks in range when the rank entered is in range.
  Ranks may repeat.
\<close>

theorem hall_mutations_keep_names_unique_and_ranks_in_range:
  assumes "namesUnique (choices st)" and "ranksInRange (choices st)"
  shows "(namesUnique (choices (handleHallAdd st)) \<and> ranksInRange (choices (handleHallAdd st))) \<and>
         (namesUnique (choices (handleHallRemove idx st)) \<and>
          ranksInRange (choices (handleHallRemove idx st))) \<and>
         (\<forall>st'. handleHallInputChange toNum v nm idx st = Inr st' \<longrightarrow>
                namesUnique (choices st') \<and>
                (rankInRange (length (choices st)) (Number toNum v) \<longrightarrow> ranksInRange (choices st')))"
  using assms namesUnique_handleHallAdd ranksInRange_handleHallAdd namesUnique_handleHallRemove
    ranksInRange_handleHallRemove namesUnique_handleHallInputChange
    ranksInRange_handleHallInputChange
  by blast

theorem hall_mutations_keep_names_unique_and_ranks_in_range_witness:
  "namesUnique (choices (pageWith [] [hall 1 ''North'', hall 2 ''South''])) \<and>
   ranksInRange (choices (pageWith [] [hall 1 ''North'', hall 2 ''South''])) \<and>
   handleHallInputChange decimalInteger (JString ''1'') (Present ''East'') (Some 1)
       (pageWith [] [hall 1 ''North'', hall 2 ''South''])
     = Inr ((pageWith [] [hall 1 ''East'', hall 1 ''North''])\<lparr>unsavedChanges := True\<rparr>) \<and>
   rankInRange (length (choices (pageWith [] [hall 1 ''North'', hall 2 ''South'']))) (Number decimalInteger (JString ''1'')) \<and>
   namesUnique [hall 1 ''East'', hall 1 ''North''] \<and>
   ranksInRange [hall 1 ''East'', hall 1 ''North''] \<and>
   ranksInRange (choices (handleHallAdd (pageWith [] [hall 1 ''North'', hall 2 ''South'']))) \<and>
   ranksInRange (choices (handleHallRemove (Some 0) (pageWith [] [hall 1 ''North'', hall 2 ''South''])))"
proof -
  let ?st = "pageWith [] [hall 1 ''North'', hall 2 ''South'']"
  have n: "namesUnique (choices ?st)"
    by (simp add: pageWith_def hall_def namesUnique_def)
  have r: "ranksInRange (choices ?st)"
    by (simp add: pageWith_def hall_def ranksInRange_def)
  have e: "handleHallInputChange decimalInteger (JString ''1'') (Present ''East'') (Some 1) ?st
             = Inr ((pageWith [] [hall 1 ''East'', hall 1 ''North''])\<lparr>unsavedChanges := True\<rparr>)"
    by (simp add: pageWith_def hall_def handleHallInputChange_def Let_def hallNameTaken_def
          newApartmentChoice_def sortByRankName_def choiceKey_def decimalInteger_def trim_def
          isBlank_def unsignedDecimal_def isDigit_def decimalValue_def digitValue_def
          less_eq_prod_def less_prod_def)
  have v: "rankInRange (length (choices ?st)) (Number decimalInteger (JString ''1''))"
    by (simp add: pageWith_def decimalInteger_def trim_def
          isBlank_def unsignedDecimal_def isDigit_def decimalValue_def digitValue_def)
  from hall_mutations_keep_names_unique_and_ranks_in_range
         [OF n r, where idx = "Some 0" and toNum = decimalInteger and v = "JString ''1''"
            and nm = "Present ''East''"]
       hall_mutations_keep_names_unique_and_ranks_in_range
         [OF n r, where idx = "Some 1" and toNum = decimalInteger and v = "JString ''1''"
            and nm = "Present ''East''"]
  show ?thesis using n r e v by (simp add: pageWith_def)
qed



text \<open>
  Claim C9 says that \<^verbatim>\<open>handleHallAdd\<close> appends one placeholder of rank len+1 with an
  empty name, keeps the other entries, and marks the application as having unsaved
  changes. The handler appends the placeholder and never calls \<^verbatim>\<open>setUnsavedChanges\<close>:
  on a page without unsaved changes the flag stays \<^verbatim>\<open>false\<close> after adding a hall, while
  removing a hall on the same page sets it.
\<close>

theorem handleHallAdd_leaves_unsavedChanges:
  "choices (handleHallAdd (pageWith [applicantOf alice] [hall 1 ''North'']))
     = [hall 1 ''North'', \<lparr>ChoiceApplicationID = None, HallRank = JNum 2, HallName = ''''\<rparr>] \<and>
   unsavedChanges (pageWith [applicantOf alice] [hall 1 ''North'']) = False \<and>
   unsavedChanges (handleHallAdd (pageWith [applicantOf alice] [hall 1 ''North''])) = False \<and>
   unsavedChanges (handleHallRemove (Some 0) (pageWith [applicantOf alice] [hall 1 ''North''])) = True"
  by (simp add: pageWith_def hall_def handleHallAdd_def handleHallRemove_def)



section \<open>Applicants: the eligibility check, adding and removing\<close>




lemma addApplicant_roster:
  "roster (addApplicant env u st) = roster st \<or>
   (length (roster st) < MAX_NUM_APPLICANTS \<and>
    someUsername (roster st) u = Inr False \<and>
    (\<exists>p. user_getProfileInfo env (calls st) u = Inr (Some p) \<and>
         roster (addApplicant env u st) =
           roster st @ [\<lparr>ApplicantApplicationID = ApplicationID (applicationDetails st),
                         Profile = Some (p\<lparr>fullName := Present (filledFullName p)\<rparr>),
                         Username = u, OffCampusProgram = ''''\<rparr>]))"
  by (auto simp: addApplicant_def isApplicantValid_def Let_def createSnackbar_def
      split: option.splits if_splits sum.splits service_error.splits exn.splits bool.splits)











text \<open>
  The roster keeps one gender, the one the application holds: a new application starts so,
  and \<^verbatim>\<open>addApplicant\<close> keeps it so.
\<close>

lemma addApplicant_gender_kept:
  "ApplicationGender (applicationDetails (addApplicant env u st)) =
     ApplicationGender (applicationDetails st)"
  by (auto simp: addApplicant_def isApplicantValid_def Let_def createSnackbar_def
      split: option.splits if_splits sum.splits service_error.splits exn.splits bool.splits)

lemma addApplicant_appends_same_gender:
  "roster (addApplicant env u st) \<noteq> roster st \<Longrightarrow>
     \<exists>p. user_getProfileInfo env (calls st) u = Inr (Some p) \<and>
         Gender p = ApplicationGender (applicationDetails st)"
  by (auto simp: addApplicant_def isApplicantValid_def Let_def createSnackbar_def
      split: option.splits if_splits sum.splits service_error.splits exn.splits bool.splits)

lemma initializeNewApplication_sharesGender:
  "rosterSharesGender (initializeNewApplication st)"
  by (simp add: rosterSharesGender_def initializeNewApplication_def BLANK_APPLICATION_DETAILS_def)

lemma addApplicant_sharesGender:
  assumes "rosterSharesGender st"
  shows "rosterSharesGender (addApplicant env u st)"
proof (cases "roster (addApplicant env u st) = roster st")
  case True
  then show ?thesis
    using assms by (simp add: rosterSharesGender_def addApplicant_gender_kept cong: option.case_cong)
next
  case False
  from addApplicant_appends_same_gender[OF False] obtain p
    where p: "user_getProfileInfo env (calls st) u = Inr (Some p)"
      and g: "Gender p = ApplicationGender (applicationDetails st)"
    by blast
  from addApplicant_roster[of env u st] False p
  have "roster (addApplicant env u st) =
          roster st @ [\<lparr>ApplicantApplicationID = ApplicationID (applicationDetails st),
                        Profile = Some (p\<lparr>fullName := Present (filledFullName p)\<rparr>),
                        Username = u, OffCampusProgram = ''''\<rparr>]"
    by auto
  then show ?thesis
    using assms g by (simp add: rosterSharesGender_def addApplicant_gender_kept cong: option.case_cong)
qed

section \<open>Claims about saving and the applicants\<close>

text \<open>
  Claim C4. Saving an application whose \<^verbatim>\<open>Applicants\<close> array is empty issues no call to
  a service (the log of calls is as before), shows the error notification, sets the
  \<^verbatim>\<open>saving\<close> flag to \<^verbatim>\<open>'error'\<close>, leaves the application details and the flag of
  unsaved changes as they were, and returns \<^verbatim>\<open>null\<close>.
\<close>

theorem saveApartmentApplication_rejects_empty_roster:
  assumes "Applicants details = []"
  shows "case saveApartmentApplication env details st of
           (st', result) \<Rightarrow>
             calls st' = calls st \<and>
             snackbar st' = \<lparr>message = msg_no_applicants, severity = Error, isOpen = True\<rparr> \<and>
             saving st' = FlagError \<and>
             applicationDetails st' = applicationDetails st \<and>
             unsavedChanges st' = unsavedChanges st \<and>
             result = None"
  using assms
  by (simp add: saveApartmentApplication_def Let_def createSnackbar_def startSaveButtonAlert_def)

theorem saveApartmentApplication_rejects_empty_roster_witness:
  "Applicants (applicationDetails (pageWith [] [hall 1 ''North''])) = [] \<and>
   saveApartmentApplication sampleServices (applicationDetails (pageWith [] [hall 1 ''North'']))
       (pageWith [] [hall 1 ''North''])
     = ((pageWith [] [hall 1 ''North''])
          \<lparr>saving := FlagError,
           snackbar := \<lparr>message = msg_no_applicants, severity = Error, isOpen = True\<rparr>,
           saveButtonAlertTimeout := Some 0,
           timersStarted := 1\<rparr>, None)"
proof -
  let ?st = "pageWith [] [hall 1 ''North'']"
  have e: "Applicants (applicationDetails ?st) = []" by (simp add: pageWith_def)
  from saveApartmentApplication_rejects_empty_roster[OF e, where env = sampleServices and st = ?st]
  show ?thesis using e
    by (simp add: saveApartmentApplication_def Let_def createSnackbar_def
          startSaveButtonAlert_def pageWith_def)
qed










end
